theory Spec2Isabelle
  imports Main
begin

section \<open>Values of the Go runtime that the store computes with\<close>

text \<open>
  A \<^verbatim>\<open>time.Time\<close> is modelled by the instant it denotes, in nanoseconds since the Unix
  epoch; a \<^verbatim>\<open>time.Duration\<close> is a number of nanoseconds. Instants are read in UTC
  (a location whose offset is a whole number of minutes gives the same \<^verbatim>\<open>Second()\<close>).
\<close>

type_synonym Time = int
type_synonym Duration = int

definition Millisecond :: Duration where
  "Millisecond = 1000000"

definition Add :: "Time \<Rightarrow> Duration \<Rightarrow> Time" where
  "Add t d = t + d"

text \<open>\<^verbatim>\<open>t.Second()\<close>: the second offset within the minute, in the range 0..59.\<close>

definition Second :: "Time \<Rightarrow> int" where
  "Second t = (t div 1000000000) mod 60"

text \<open>\<^verbatim>\<open>t.UnixNano()\<close> is an int64: outside its range the value wraps around.\<close>

definition int64 :: "int \<Rightarrow> int" where
  "int64 n = (n + 9223372036854775808) mod 18446744073709551616 - 9223372036854775808"

definition UnixNano :: "Time \<Rightarrow> int" where
  "UnixNano t = int64 t"

text \<open>Go's \<^verbatim>\<open>/\<close> on int64 truncates towards zero.\<close>

definition int64_quo :: "int \<Rightarrow> int \<Rightarrow> int" where
  "int64_quo a b = int64 (sgn a * sgn b * (\<bar>a\<bar> div \<bar>b\<bar>))"

text \<open>\<^verbatim>\<open>time.Unix(sec, nsec)\<close>: the instant sec seconds and nsec nanoseconds after the epoch.\<close>

definition time_Unix :: "int \<Rightarrow> int \<Rightarrow> Time" where
  "time_Unix sec nsec = sec * 1000000000 + nsec"

datatype error = ErrNoDocuments | ErrDuplicateKey | ErrBackend nat | ErrDecode | ErrJSON nat

text \<open>
  \<^verbatim>\<open>log.Fatal\<close> prints its argument and ends the process with \<^verbatim>\<open>os.Exit(1)\<close>: a call either
  ends the process (\<open>Exit\<close>, with the error that was logged) or returns to its caller.
\<close>

datatype 'a outcome = Exit error | Return 'a

text \<open>An \<^verbatim>\<open>objectid.ObjectID\<close> is represented by its hexadecimal form (24 digits).\<close>

datatype ObjectID = ObjectID string

fun Hex :: "ObjectID \<Rightarrow> string" where
  "Hex (ObjectID h) = h"

section \<open>The token information handed to the store\<close>

text \<open>The getters of \<^verbatim>\<open>oauth2.TokenInfo\<close> that the store calls.\<close>

record TokenInfo =
  GetCode :: string
  GetCodeCreateAt :: Time
  GetCodeExpiresIn :: Duration
  GetAccess :: string
  GetAccessCreateAt :: Time
  GetAccessExpiresIn :: Duration
  GetRefresh :: string
  GetRefreshCreateAt :: Time
  GetRefreshExpiresIn :: Duration

record TokenConfig =
  TxnCName :: string
  BasicCName :: string
  AccessCName :: string
  RefreshCName :: string

definition NewDefaultTokenConfig :: TokenConfig where
  "NewDefaultTokenConfig =
     \<lparr>TxnCName = ''oauth2_txn'', BasicCName = ''oauth2_basic'',
      AccessCName = ''oauth2_access'', RefreshCName = ''oauth2_refresh''\<rparr>"

text \<open>
  The \<^verbatim>\<open>TokenStore\<close>: its configuration and database name. The client handle stands for
  the database itself, whose contents every operation below takes and returns.
\<close>

record TokenStore =
  tcfg :: TokenConfig
  dbName :: string

section \<open>The document database\<close>

text \<open>
  A database maps a collection name to a collection, and a collection maps the value
  of \<^verbatim>\<open>_id\<close> to the document stored under it: MongoDB keeps \<^verbatim>\<open>_id\<close> unique within a
  collection, so an insert under an \<^verbatim>\<open>_id\<close> that is present fails with a duplicate-key
  write error and changes nothing. Any call may also fail for a reason of the backend's
  own (the connection); \<open>flt\<close> says which calls do, and a call that fails so changes
  nothing.
\<close>

type_synonym ('k, 'd) database = "string \<Rightarrow> 'k \<Rightarrow> 'd option"

datatype 'k op = OpInsert string 'k | OpDelete string 'k | OpFind string 'k

definition Collection_InsertOne ::
  "('k op \<Rightarrow> nat option) \<Rightarrow> string \<Rightarrow> 'k \<Rightarrow> 'd \<Rightarrow> ('k, 'd) database \<Rightarrow> ('k, 'd) database \<times> error option" where
  "Collection_InsertOne flt c k d db =
     (case flt (OpInsert c k) of
        Some n \<Rightarrow> (db, Some (ErrBackend n))
      | None \<Rightarrow>
          (case db c k of
             Some _ \<Rightarrow> (db, Some ErrDuplicateKey)
           | None \<Rightarrow> (db(c := (db c)(k \<mapsto> d)), None)))"

text \<open>\<^verbatim>\<open>DeleteOne\<close> and \<^verbatim>\<open>DeleteMany\<close> with the filter \<^verbatim>\<open>{_id: k}\<close>: at most one document matches.\<close>

definition Collection_Delete ::
  "('k op \<Rightarrow> nat option) \<Rightarrow> string \<Rightarrow> 'k \<Rightarrow> ('k, 'd) database \<Rightarrow> ('k, 'd) database \<times> error option" where
  "Collection_Delete flt c k db =
     (case flt (OpDelete c k) of
        Some n \<Rightarrow> (db, Some (ErrBackend n))
      | None \<Rightarrow> (db(c := (db c)(k := None)), None))"

text \<open>\<^verbatim>\<open>FindOne\<close> with the filter \<^verbatim>\<open>{_id: k}\<close>; no match is \<^verbatim>\<open>mongo.ErrNoDocuments\<close>.\<close>

definition Collection_FindOne ::
  "('k op \<Rightarrow> nat option) \<Rightarrow> string \<Rightarrow> 'k \<Rightarrow> ('k, 'd) database \<Rightarrow> error + 'd" where
  "Collection_FindOne flt c k db =
     (case flt (OpFind c k) of
        Some n \<Rightarrow> Inl (ErrBackend n)
      | None \<Rightarrow> (case db c k of None \<Rightarrow> Inl ErrNoDocuments | Some d \<Rightarrow> Inr d))"

section \<open>The store of oauth2mongo.go\<close>

text \<open>
  Every \<^verbatim>\<open>_id\<close> this file writes is a string. A document is one of the two shapes
  that \<^verbatim>\<open>Create\<close> builds: \<^verbatim>\<open>{_id, Data, ExpiredAt}\<close> and \<^verbatim>\<open>{_id, BasicID, ExpiredAt}\<close>,
  stored under its \<^verbatim>\<open>_id\<close>.
\<close>

datatype doc = BasicDoc string Time | TokenDoc string Time

type_synonym db = "(string, doc) database"

text \<open>
  What the environment of a call supplies: \<^verbatim>\<open>json.Marshal\<close> on the token information,
  \<^verbatim>\<open>json.Unmarshal\<close> into a \<^verbatim>\<open>models.Token\<close>, and the backend's failures.
\<close>

record env =
  json_Marshal :: "TokenInfo \<Rightarrow> error + string"
  json_Unmarshal :: "string \<Rightarrow> error + TokenInfo"
  fault :: "string op \<Rightarrow> nat option"

record basicData =
  ID :: string
  Data :: string
  ExpiredAt :: Time

record tokenData =
  tokenID :: string
  BasicID :: string
  tokenExpiredAt :: Time

text \<open>
  \<^verbatim>\<open>Decode\<close> into a struct fills the fields the document has and leaves the others at
  their zero value.
\<close>

fun Decode_basicData :: "string \<Rightarrow> doc \<Rightarrow> basicData" where
  "Decode_basicData k (BasicDoc data t) = \<lparr>ID = k, Data = data, ExpiredAt = t\<rparr>"
| "Decode_basicData k (TokenDoc b t) = \<lparr>ID = k, Data = [], ExpiredAt = t\<rparr>"

fun Decode_tokenData :: "string \<Rightarrow> doc \<Rightarrow> tokenData" where
  "Decode_tokenData k (TokenDoc b t) = \<lparr>tokenID = k, BasicID = b, tokenExpiredAt = t\<rparr>"
| "Decode_tokenData k (BasicDoc data t) = \<lparr>tokenID = k, BasicID = [], tokenExpiredAt = t\<rparr>"

text \<open>
  \<^verbatim>\<open>InsertOne\<close> (lines 134-142): a failed insert goes to \<^verbatim>\<open>log.Fatal\<close>, so the two
  statements after it never run.
\<close>

definition InsertOne :: "env \<Rightarrow> string \<Rightarrow> string \<Rightarrow> doc \<Rightarrow> db \<Rightarrow> db \<times> error option outcome" where
  "InsertOne e collectionName k d db =
     (case Collection_InsertOne (fault e) collectionName k d db of
        (db', Some verr) \<Rightarrow> (db', Exit verr)
      | (db', None) \<Rightarrow> (db', Return None))"

text \<open>
  \<^verbatim>\<open>Create\<close> calls \<^verbatim>\<open>InsertOne\<close> as a statement: what it returns is dropped, and the
  next statement runs unless the process has ended.
\<close>

definition andThen :: "db \<times> 'a outcome \<Rightarrow> (db \<Rightarrow> db \<times> 'b outcome) \<Rightarrow> db \<times> 'b outcome" where
  "andThen r k = (case r of (db', Exit x) \<Rightarrow> (db', Exit x) | (db', Return _) \<Rightarrow> k db')"

text \<open>
  The value written as \<^verbatim>\<open>ExpiredAt\<close> for an expiry \<open>t\<close> (lines 156, 175, 183, 192):
  \<^verbatim>\<open>time.Unix(0, t.UnixNano()/int64(time.Millisecond))\<close>.
\<close>

definition expiredAt :: "Time \<Rightarrow> Time" where
  "expiredAt t = time_Unix 0 (int64_quo (UnixNano t) (int64 Millisecond))"

text \<open>Lines 161-168: the pair (aexp, rexp) as it stands after the \<^verbatim>\<open>if\<close>.\<close>

definition expiries :: "TokenInfo \<Rightarrow> Time \<times> Time" where
  "expiries info =
     (let aexp = Add (GetAccessCreateAt info) (GetAccessExpiresIn info);
          rexp = aexp
      in if GetRefresh info \<noteq> []
         then (let rexp = Add (GetRefreshCreateAt info) (GetRefreshExpiresIn info)
               in if Second aexp > Second rexp then (rexp, rexp) else (aexp, rexp))
         else (aexp, rexp))"

definition Create :: "env \<Rightarrow> TokenStore \<Rightarrow> TokenInfo \<Rightarrow> ObjectID \<Rightarrow> db \<Rightarrow> db \<times> error option outcome" where
  "Create e ts info oid db =
     (case json_Marshal e info of
        Inl err \<Rightarrow> (db, Return (Some err))
      | Inr jv \<Rightarrow>
          andThen
            (if GetCode info \<noteq> []
             then InsertOne e (BasicCName (tcfg ts)) (GetCode info)
                    (BasicDoc jv (expiredAt (Add (GetCodeCreateAt info) (GetCodeExpiresIn info)))) db
             else (db, Return None))
            (\<lambda>db.
               let (aexp, rexp) = expiries info;
                   basic_id = Hex oid
               in andThen
                    (InsertOne e (BasicCName (tcfg ts)) basic_id (BasicDoc jv (expiredAt rexp)) db)
                    (\<lambda>db.
                       andThen
                         (if GetAccess info \<noteq> []
                          then InsertOne e (AccessCName (tcfg ts)) (GetAccess info)
                                 (TokenDoc basic_id (expiredAt aexp)) db
                          else (db, Return None))
                         (\<lambda>db.
                            if GetRefresh info \<noteq> []
                            then InsertOne e (RefreshCName (tcfg ts)) (GetRefresh info)
                                   (TokenDoc basic_id (expiredAt rexp)) db
                            else (db, Return None)))))"

text \<open>\<^verbatim>\<open>DeleteByID\<close> (lines 199-209) and the three removals (lines 212-239).\<close>

definition DeleteByID :: "env \<Rightarrow> string \<Rightarrow> string \<Rightarrow> db \<Rightarrow> db \<times> error option" where
  "DeleteByID e collectionName k db = Collection_Delete (fault e) collectionName k db"

definition RemoveByCode :: "env \<Rightarrow> TokenStore \<Rightarrow> string \<Rightarrow> db \<Rightarrow> db \<times> error option" where
  "RemoveByCode e ts code db = DeleteByID e (BasicCName (tcfg ts)) code db"

definition RemoveByAccess :: "env \<Rightarrow> TokenStore \<Rightarrow> string \<Rightarrow> db \<Rightarrow> db \<times> error option" where
  "RemoveByAccess e ts access db = DeleteByID e (AccessCName (tcfg ts)) access db"

definition RemoveByRefresh :: "env \<Rightarrow> TokenStore \<Rightarrow> string \<Rightarrow> db \<Rightarrow> db \<times> error option" where
  "RemoveByRefresh e ts refresh db = DeleteByID e (RefreshCName (tcfg ts)) refresh db"

text \<open>The lookups (lines 242-305) read the database and leave it as it is.\<close>

definition FindByID :: "env \<Rightarrow> string \<Rightarrow> string \<Rightarrow> db \<Rightarrow> error + doc" where
  "FindByID e collectionName k db = Collection_FindOne (fault e) collectionName k db"

definition getData :: "env \<Rightarrow> TokenStore \<Rightarrow> string \<Rightarrow> db \<Rightarrow> (TokenInfo option \<times> error option) outcome" where
  "getData e ts basicID db =
     (case FindByID e (BasicCName (tcfg ts)) basicID db of
        Inl verr \<Rightarrow> if verr = ErrNoDocuments then Return (None, None) else Exit verr
      | Inr d \<Rightarrow>
          (case json_Unmarshal e (Data (Decode_basicData basicID d)) of
             Inl err \<Rightarrow> Return (None, Some err)
           | Inr tm \<Rightarrow> Return (Some tm, None)))"

definition getBasicID :: "env \<Rightarrow> string \<Rightarrow> string \<Rightarrow> db \<Rightarrow> string \<times> error option" where
  "getBasicID e cname token db =
     (case FindByID e cname token db of
        Inl verr \<Rightarrow> if verr = ErrNoDocuments then ([], None) else ([], Some verr)
      | Inr d \<Rightarrow> (BasicID (Decode_tokenData token d), None))"

definition GetByCode :: "env \<Rightarrow> TokenStore \<Rightarrow> string \<Rightarrow> db \<Rightarrow> (TokenInfo option \<times> error option) outcome" where
  "GetByCode e ts code db = getData e ts code db"

definition GetByAccess :: "env \<Rightarrow> TokenStore \<Rightarrow> string \<Rightarrow> db \<Rightarrow> (TokenInfo option \<times> error option) outcome" where
  "GetByAccess e ts access db =
     (let (basicID, err) = getBasicID e (AccessCName (tcfg ts)) access db
      in if err \<noteq> None \<and> basicID = [] then Return (None, err) else getData e ts basicID db)"

definition GetByRefresh :: "env \<Rightarrow> TokenStore \<Rightarrow> string \<Rightarrow> db \<Rightarrow> (TokenInfo option \<times> error option) outcome" where
  "GetByRefresh e ts refresh db =
     (let (basicID, err) = getBasicID e (RefreshCName (tcfg ts)) refresh db
      in if err \<noteq> None \<and> basicID = [] then Return (None, err) else getData e ts basicID db)"

section \<open>The store of the second source file (package mongo)\<close>

text \<open>
  This file writes \<^verbatim>\<open>_id\<close> as a BSON string (a code or a token) or as a BSON ObjectID
  (the generated identifier), \<^verbatim>\<open>BasicID\<close> as an ObjectID, and \<^verbatim>\<open>ExpiredAt\<close> as a BSON
  DateTime, a number of milliseconds since the epoch. A filter on \<^verbatim>\<open>_id\<close> matches a value
  of the same BSON type only.
\<close>

datatype id_m = StringID string | OID ObjectID

datatype doc_m = BasicDoc_m string int | TokenDoc_m ObjectID int

type_synonym db_m = "(id_m, doc_m) database"

text \<open>
  Its structs read \<^verbatim>\<open>Data\<close> into a byte slice and \<^verbatim>\<open>BasicID\<close> into a string, which are
  not the BSON types it writes. What \<^verbatim>\<open>Decode\<close> makes of a document is the driver's
  business: the environment supplies it, for the field that \<^verbatim>\<open>getData\<close> reads and for
  the field that \<^verbatim>\<open>getBasicID\<close> reads.
\<close>

record env_m =
  json_Marshal_m :: "TokenInfo \<Rightarrow> error + string"
  json_Unmarshal_m :: "string \<Rightarrow> error + TokenInfo"
  fault_m :: "id_m op \<Rightarrow> nat option"
  Decode_Data_m :: "doc_m \<Rightarrow> error + string"
  Decode_BasicID_m :: "doc_m \<Rightarrow> error + string"

text \<open>
  The closure around each insert (lines 162-174, 189-200, 204-215, 220-231) assigns a
  failure to the error that \<^verbatim>\<open>Create\<close> returns, and \<^verbatim>\<open>Create\<close> goes on.
\<close>

definition cInsertOne :: "env_m \<Rightarrow> string \<Rightarrow> id_m \<Rightarrow> doc_m \<Rightarrow> db_m \<times> error option \<Rightarrow> db_m \<times> error option" where
  "cInsertOne e c k d s =
     (case s of (db, err) \<Rightarrow>
        (case Collection_InsertOne (fault_m e) c k d db of
           (db', Some verr) \<Rightarrow> (db', Some verr)
         | (db', None) \<Rightarrow> (db', err)))"

text \<open>The DateTime written for an expiry \<open>t\<close>: \<^verbatim>\<open>t.UnixNano()/int64(time.Millisecond)\<close>.\<close>

definition expiredAt_m :: "Time \<Rightarrow> int" where
  "expiredAt_m t = int64_quo (UnixNano t) (int64 Millisecond)"

definition Create_m :: "env_m \<Rightarrow> TokenStore \<Rightarrow> TokenInfo \<Rightarrow> ObjectID \<Rightarrow> db_m \<Rightarrow> db_m \<times> error option" where
  "Create_m e ts info oid db =
     (case json_Marshal_m e info of
        Inl err \<Rightarrow> (db, Some err)
      | Inr jv \<Rightarrow>
          (let s1 = (if GetCode info \<noteq> []
                     then cInsertOne e (BasicCName (tcfg ts)) (StringID (GetCode info))
                            (BasicDoc_m jv (expiredAt_m (Add (GetCodeCreateAt info) (GetCodeExpiresIn info))))
                            (db, None)
                     else (db, None));
               (aexp, rexp) = expiries info;
               s2 = cInsertOne e (BasicCName (tcfg ts)) (OID oid) (BasicDoc_m jv (expiredAt_m rexp)) s1;
               s3 = cInsertOne e (AccessCName (tcfg ts)) (StringID (GetAccess info))
                      (TokenDoc_m oid (expiredAt_m aexp)) s2
           in if GetRefresh info \<noteq> []
              then cInsertOne e (AccessCName (tcfg ts)) (StringID (GetRefresh info))
                     (TokenDoc_m oid (expiredAt_m rexp)) s3
              else s3))"

definition cDeleteMany :: "env_m \<Rightarrow> string \<Rightarrow> id_m \<Rightarrow> db_m \<Rightarrow> db_m \<times> error option" where
  "cDeleteMany e c k db = Collection_Delete (fault_m e) c k db"

definition RemoveByCode_m :: "env_m \<Rightarrow> TokenStore \<Rightarrow> string \<Rightarrow> db_m \<Rightarrow> db_m \<times> error option" where
  "RemoveByCode_m e ts code db = cDeleteMany e (BasicCName (tcfg ts)) (StringID code) db"

definition RemoveByAccess_m :: "env_m \<Rightarrow> TokenStore \<Rightarrow> string \<Rightarrow> db_m \<Rightarrow> db_m \<times> error option" where
  "RemoveByAccess_m e ts access db = cDeleteMany e (AccessCName (tcfg ts)) (StringID access) db"

definition RemoveByRefresh_m :: "env_m \<Rightarrow> TokenStore \<Rightarrow> string \<Rightarrow> db_m \<Rightarrow> db_m \<times> error option" where
  "RemoveByRefresh_m e ts refresh db = cDeleteMany e (RefreshCName (tcfg ts)) (StringID refresh) db"

text \<open>\<^verbatim>\<open>c.FindOne(...).Decode(&v)\<close>: one error, from the lookup or from the decoding.\<close>

definition FindOne_Decode :: "env_m \<Rightarrow> (doc_m \<Rightarrow> error + string) \<Rightarrow> string \<Rightarrow> string \<Rightarrow> db_m \<Rightarrow> error + string" where
  "FindOne_Decode e dec c k db =
     (case Collection_FindOne (fault_m e) c (StringID k) db of
        Inl verr \<Rightarrow> Inl verr
      | Inr d \<Rightarrow> dec d)"

definition getData_m :: "env_m \<Rightarrow> TokenStore \<Rightarrow> string \<Rightarrow> db_m \<Rightarrow> TokenInfo option \<times> error option" where
  "getData_m e ts basicID db =
     (case FindOne_Decode e (Decode_Data_m e) (BasicCName (tcfg ts)) basicID db of
        Inl verr \<Rightarrow> if verr = ErrNoDocuments then (None, None) else (None, Some verr)
      | Inr data \<Rightarrow>
          (case json_Unmarshal_m e data of
             Inl err \<Rightarrow> (None, Some err)
           | Inr tm \<Rightarrow> (Some tm, None)))"

definition getBasicID_m :: "env_m \<Rightarrow> string \<Rightarrow> string \<Rightarrow> db_m \<Rightarrow> string \<times> error option" where
  "getBasicID_m e cname token db =
     (case FindOne_Decode e (Decode_BasicID_m e) cname token db of
        Inl verr \<Rightarrow> if verr = ErrNoDocuments then ([], None) else ([], Some verr)
      | Inr b \<Rightarrow> (b, None))"

definition GetByCode_m :: "env_m \<Rightarrow> TokenStore \<Rightarrow> string \<Rightarrow> db_m \<Rightarrow> TokenInfo option \<times> error option" where
  "GetByCode_m e ts code db = getData_m e ts code db"

definition GetByAccess_m :: "env_m \<Rightarrow> TokenStore \<Rightarrow> string \<Rightarrow> db_m \<Rightarrow> TokenInfo option \<times> error option" where
  "GetByAccess_m e ts access db =
     (let (basicID, err) = getBasicID_m e (AccessCName (tcfg ts)) access db
      in if err \<noteq> None \<and> basicID = [] then (None, err) else getData_m e ts basicID db)"

definition GetByRefresh_m :: "env_m \<Rightarrow> TokenStore \<Rightarrow> string \<Rightarrow> db_m \<Rightarrow> TokenInfo option \<times> error option" where
  "GetByRefresh_m e ts refresh db =
     (let (basicID, err) = getBasicID_m e (RefreshCName (tcfg ts)) refresh db
      in if err \<noteq> None \<and> basicID = [] then (None, err) else getData_m e ts basicID db)"

section \<open>Concrete inputs\<close>

text \<open>
  A store with the default collection names, empty collections, a backend without
  failures, and a stand-in for the JSON codec that keeps the three keys of the token
  information.
\<close>

definition ts0 :: TokenStore where
  "ts0 = \<lparr>tcfg = NewDefaultTokenConfig, dbName = ''oauth2''\<rparr>"

definition token_of :: "string \<Rightarrow> string \<Rightarrow> string \<Rightarrow> TokenInfo" where
  "token_of c a r =
     \<lparr>GetCode = c, GetCodeCreateAt = 0, GetCodeExpiresIn = 0,
      GetAccess = a, GetAccessCreateAt = 0, GetAccessExpiresIn = 0,
      GetRefresh = r, GetRefreshCreateAt = 0, GetRefreshExpiresIn = 0\<rparr>"

definition marshal0 :: "TokenInfo \<Rightarrow> error + string" where
  "marshal0 info = Inr (GetCode info @ ''|'' @ GetAccess info @ ''|'' @ GetRefresh info)"

definition unmarshal0 :: "string \<Rightarrow> error + TokenInfo" where
  "unmarshal0 s =
     (let c = takeWhile (\<lambda>x. x \<noteq> CHR ''|'') s;
          s' = drop (Suc (length c)) s;
          a = takeWhile (\<lambda>x. x \<noteq> CHR ''|'') s';
          r = drop (Suc (length a)) s'
      in if s = [] then Inl (ErrJSON 0) else Inr (token_of c a r))"

definition env0 :: env where
  "env0 = \<lparr>json_Marshal = marshal0, json_Unmarshal = unmarshal0, fault = (\<lambda>_. None)\<rparr>"

text \<open>
  The driver's \<^verbatim>\<open>Decode\<close> for the structs of the second file. An element whose BSON type
  is not the type of the struct's field is a decoding error: the string \<^verbatim>\<open>Data\<close> read
  into the byte slice (cannot decode string into a *[]byte), the ObjectID \<^verbatim>\<open>BasicID\<close> read
  into the string (cannot decode objectID into a string type). An element that the
  document lacks leaves the field at its zero value.
\<close>

fun Decode_Data_driver :: "doc_m \<Rightarrow> error + string" where
  "Decode_Data_driver (BasicDoc_m data t) = Inl ErrDecode"
| "Decode_Data_driver (TokenDoc_m b t) = Inr []"

fun Decode_BasicID_driver :: "doc_m \<Rightarrow> error + string" where
  "Decode_BasicID_driver (TokenDoc_m b t) = Inl ErrDecode"
| "Decode_BasicID_driver (BasicDoc_m data t) = Inr []"

definition env0_m :: env_m where
  "env0_m = \<lparr>json_Marshal_m = marshal0, json_Unmarshal_m = unmarshal0, fault_m = (\<lambda>_. None),
             Decode_Data_m = Decode_Data_driver, Decode_BasicID_m = Decode_BasicID_driver\<rparr>"

definition empty_db :: "('k, 'd) database" where
  "empty_db = (\<lambda>_ _. None)"

definition oid0 :: ObjectID where
  "oid0 = ObjectID ''5bd8a1f0c2e4a7000178b3d1''"

text \<open>30 October 2018, 12:00:00 UTC, and the durations of the scenarios.\<close>

definition now0 :: Time where
  "now0 = 1540900800 * 1000000000"

definition Hour :: Duration where
  "Hour = 3600 * 1000000000"

definition Minute :: Duration where
  "Minute = 60 * 1000000000"

text \<open>Access token for two hours, refresh token for one hour, both created now.\<close>

definition info_2h_1h :: TokenInfo where
  "info_2h_1h =
     \<lparr>GetCode = [], GetCodeCreateAt = 0, GetCodeExpiresIn = 0,
      GetAccess = ''a1'', GetAccessCreateAt = now0, GetAccessExpiresIn = 2 * Hour,
      GetRefresh = ''r1'', GetRefreshCreateAt = now0, GetRefreshExpiresIn = Hour\<rparr>"

text \<open>Access token for 90 seconds, refresh token for 120 seconds, both created now.\<close>

definition info_90s_120s :: TokenInfo where
  "info_90s_120s =
     \<lparr>GetCode = [], GetCodeCreateAt = 0, GetCodeExpiresIn = 0,
      GetAccess = ''a1'', GetAccessCreateAt = now0, GetAccessExpiresIn = 90 * 1000000000,
      GetRefresh = ''r1'', GetRefreshCreateAt = now0, GetRefreshExpiresIn = 120 * 1000000000\<rparr>"

text \<open>The scenario of the specification: code c1, access a1 for 1h, refresh r1 for 24h.\<close>

definition info_1h_24h :: TokenInfo where
  "info_1h_24h =
     \<lparr>GetCode = ''c1'', GetCodeCreateAt = now0, GetCodeExpiresIn = 10 * Minute,
      GetAccess = ''a1'', GetAccessCreateAt = now0, GetAccessExpiresIn = Hour,
      GetRefresh = ''r1'', GetRefreshCreateAt = now0, GetRefreshExpiresIn = 24 * Hour\<rparr>"

text \<open>An authorization code alone, valid for ten minutes: no access or refresh token yet.\<close>

definition info_code :: TokenInfo where
  "info_code =
     \<lparr>GetCode = ''c1'', GetCodeCreateAt = now0, GetCodeExpiresIn = 10 * Minute,
      GetAccess = [], GetAccessCreateAt = 0, GetAccessExpiresIn = 0,
      GetRefresh = [], GetRefreshCreateAt = 0, GetRefreshExpiresIn = 0\<rparr>"

text \<open>An access token alone, valid for thirty minutes: no code, no refresh token.\<close>

definition info_access_30m :: TokenInfo where
  "info_access_30m =
     \<lparr>GetCode = [], GetCodeCreateAt = 0, GetCodeExpiresIn = 0,
      GetAccess = ''a1'', GetAccessCreateAt = now0, GetAccessExpiresIn = 30 * Minute,
      GetRefresh = [], GetRefreshCreateAt = 0, GetRefreshExpiresIn = 0\<rparr>"

definition oid1 :: ObjectID where
  "oid1 = ObjectID ''5bd8a1f0c2e4a7000178b3d2''"

text \<open>An environment whose \<^verbatim>\<open>json.Marshal\<close> fails, and one whose backend fails every call.\<close>

definition env_nomarshal :: env where
  "env_nomarshal = env0\<lparr>json_Marshal := (\<lambda>_. Inl (ErrJSON 1))\<rparr>"

definition env_nomarshal_m :: env_m where
  "env_nomarshal_m = env0_m\<lparr>json_Marshal_m := (\<lambda>_. Inl (ErrJSON 1))\<rparr>"

definition env_down :: env where
  "env_down = env0\<lparr>fault := (\<lambda>_. Some 7)\<rparr>"

section \<open>The states a store can be in\<close>

text \<open>
  The collections start empty and change by the store's own writes and by the
  database's expiry of documents (the TTL index deletes a document on its own). The
  generated identifier is the 24 hexadecimal digits of a fresh ObjectID.
\<close>

inductive reachable :: "TokenStore \<Rightarrow> db \<Rightarrow> bool" for ts :: TokenStore where
  init: "reachable ts empty_db"
| create: "reachable ts db \<Longrightarrow> length (Hex oid) = 24 \<Longrightarrow> Create e ts info oid db = (db', r) \<Longrightarrow> reachable ts db'"
| remove_code: "reachable ts db \<Longrightarrow> RemoveByCode e ts k db = (db', r') \<Longrightarrow> reachable ts db'"
| remove_access: "reachable ts db \<Longrightarrow> RemoveByAccess e ts k db = (db', r') \<Longrightarrow> reachable ts db'"
| remove_refresh: "reachable ts db \<Longrightarrow> RemoveByRefresh e ts k db = (db', r') \<Longrightarrow> reachable ts db'"
| expire: "reachable ts db \<Longrightarrow> reachable ts (db(c := (db c)(k := None)))"

inductive reachable_m :: "TokenStore \<Rightarrow> db_m \<Rightarrow> bool" for ts :: TokenStore where
  init_m: "reachable_m ts empty_db"
| create_m: "reachable_m ts db \<Longrightarrow> Create_m e ts info oid db = (db', r) \<Longrightarrow> reachable_m ts db'"
| remove_code_m: "reachable_m ts db \<Longrightarrow> RemoveByCode_m e ts k db = (db', r) \<Longrightarrow> reachable_m ts db'"
| remove_access_m: "reachable_m ts db \<Longrightarrow> RemoveByAccess_m e ts k db = (db', r) \<Longrightarrow> reachable_m ts db'"
| remove_refresh_m: "reachable_m ts db \<Longrightarrow> RemoveByRefresh_m e ts k db = (db', r) \<Longrightarrow> reachable_m ts db'"
| expire_m: "reachable_m ts db \<Longrightarrow> reachable_m ts (db(c := (db c)(km := None)))"

section \<open>Evaluation and the driver calls\<close>

lemmas create_defs =
  Create_def andThen_def InsertOne_def Collection_InsertOne_def expiries_def expiredAt_def
  time_Unix_def Add_def Second_def UnixNano_def int64_def int64_quo_def Millisecond_def Let_def

lemmas create_m_defs =
  Create_m_def cInsertOne_def Collection_InsertOne_def expiries_def expiredAt_m_def Add_def
  Second_def UnixNano_def int64_def int64_quo_def Millisecond_def Let_def

lemma InsertOne_eq:
  "InsertOne e c k d db =
     (case fault e (OpInsert c k) of
        Some n \<Rightarrow> (db, Exit (ErrBackend n))
      | None \<Rightarrow>
          (case db c k of
             Some x \<Rightarrow> (db, Exit ErrDuplicateKey)
           | None \<Rightarrow> (db(c := (db c)(k \<mapsto> d)), Return None)))"
  by (simp add: InsertOne_def Collection_InsertOne_def split: option.splits)

lemma cInsertOne_eq:
  "cInsertOne e c k d s =
     (case fault_m e (OpInsert c k) of
        Some n \<Rightarrow> (fst s, Some (ErrBackend n))
      | None \<Rightarrow>
          (case fst s c k of
             Some x \<Rightarrow> (fst s, Some ErrDuplicateKey)
           | None \<Rightarrow> ((fst s)(c := (fst s c)(k \<mapsto> d)), snd s)))"
  by (cases s) (simp add: cInsertOne_def Collection_InsertOne_def split: option.splits)


lemma fst_expiries:
  "fst (expiries info) =
     (if GetRefresh info \<noteq> [] \<and>
         Second (Add (GetAccessCreateAt info) (GetAccessExpiresIn info))
           > Second (Add (GetRefreshCreateAt info) (GetRefreshExpiresIn info))
      then Add (GetRefreshCreateAt info) (GetRefreshExpiresIn info)
      else Add (GetAccessCreateAt info) (GetAccessExpiresIn info))"
  by (simp add: expiries_def Let_def)





lemma expiredAt_is_millis: "expiredAt t = expiredAt_m t"
  by (simp add: expiredAt_def expiredAt_m_def time_Unix_def)

lemma Delete_cases:
  "fst (Collection_Delete flt c k db) = db \<or> fst (Collection_Delete flt c k db) = db(c := (db c)(k := None))"
  by (simp add: Collection_Delete_def split: option.splits)

lemma Delete_entry:
  "fst (Collection_Delete flt c k db) c' k' = db c' k' \<or> fst (Collection_Delete flt c k db) c' k' = None"
  by (simp add: Collection_Delete_def split: option.splits)

text \<open>
  A property of the database that every insert under a key in \<open>W\<close> keeps is kept by
  \<^verbatim>\<open>Create\<close>, however it ends.
\<close>

lemma andThen_preserves:
  "P (fst r) \<Longrightarrow> (\<And>db. P db \<Longrightarrow> P (fst (k db))) \<Longrightarrow> P (fst (andThen r k))"
  by (cases r) (auto simp: andThen_def split: outcome.splits)

lemma InsertOne_preserves:
  "P db \<Longrightarrow> (db c k = None \<Longrightarrow> P (db(c := (db c)(k \<mapsto> d)))) \<Longrightarrow> P (fst (InsertOne e c k d db))"
  by (auto simp: InsertOne_eq split: option.splits)

lemma cInsertOne_preserves:
  "P (fst s) \<Longrightarrow> (fst s c k = None \<Longrightarrow> P ((fst s)(c := (fst s c)(k \<mapsto> d)))) \<Longrightarrow>
   P (fst (cInsertOne e c k d s))"
  by (auto simp: cInsertOne_eq split: option.splits)

lemma Create_preserves:
  assumes P: "P db"
    and step: "\<And>db c k d. P db \<Longrightarrow> db c k = None \<Longrightarrow> W c k \<Longrightarrow> P (db(c := (db c)(k \<mapsto> d)))"
    and W: "GetCode info \<noteq> [] \<Longrightarrow> W (BasicCName (tcfg ts)) (GetCode info)"
           "W (BasicCName (tcfg ts)) (Hex oid)"
           "GetAccess info \<noteq> [] \<Longrightarrow> W (AccessCName (tcfg ts)) (GetAccess info)"
           "GetRefresh info \<noteq> [] \<Longrightarrow> W (RefreshCName (tcfg ts)) (GetRefresh info)"
  shows "P (fst (Create e ts info oid db))"
proof (cases "json_Marshal e info")
  case (Inl err)
  then show ?thesis using P by (simp add: Create_def)
next
  case (Inr jv)
  obtain aexp rexp where ex: "expiries info = (aexp, rexp)" by (cases "expiries info")
  have ins: "\<And>db c k d. P db \<Longrightarrow> W c k \<Longrightarrow> P (fst (InsertOne e c k d db))"
    by (rule InsertOne_preserves[where P = P]) (auto intro: step)
  have 1: "P (fst (if GetCode info \<noteq> []
             then InsertOne e (BasicCName (tcfg ts)) (GetCode info)
                    (BasicDoc jv (expiredAt (Add (GetCodeCreateAt info) (GetCodeExpiresIn info)))) db
             else (db, Return None)))"
    using P W(1) by (simp add: ins)
  have 4: "\<And>db. P db \<Longrightarrow> P (fst (if GetRefresh info \<noteq> []
                            then InsertOne e (RefreshCName (tcfg ts)) (GetRefresh info)
                                   (TokenDoc (Hex oid) (expiredAt rexp)) db
                            else (db, Return None)))"
    using W(4) by (simp add: ins)
  have 3: "\<And>db. P db \<Longrightarrow> P (fst (if GetAccess info \<noteq> []
                          then InsertOne e (AccessCName (tcfg ts)) (GetAccess info)
                                 (TokenDoc (Hex oid) (expiredAt aexp)) db
                          else (db, Return None)))"
    using W(3) by (simp add: ins)
  show ?thesis
    unfolding Create_def Inr ex sum.case prod.case Let_def
    apply (rule andThen_preserves[where P = P])
     apply (rule 1)
    apply (rule andThen_preserves[where P = P])
     apply (rule ins, assumption, rule W(2))
    apply (rule andThen_preserves[where P = P])
     apply (rule 3, assumption)
    apply (rule 4, assumption)
    done
qed

lemma Create_m_preserves:
  assumes P: "P db"
    and step: "\<And>db c k d. P db \<Longrightarrow> db c k = None \<Longrightarrow> W c k \<Longrightarrow> P (db(c := (db c)(k \<mapsto> d)))"
    and W: "GetCode info \<noteq> [] \<Longrightarrow> W (BasicCName (tcfg ts)) (StringID (GetCode info))"
           "W (BasicCName (tcfg ts)) (OID oid)"
           "W (AccessCName (tcfg ts)) (StringID (GetAccess info))"
           "GetRefresh info \<noteq> [] \<Longrightarrow> W (AccessCName (tcfg ts)) (StringID (GetRefresh info))"
  shows "P (fst (Create_m e ts info oid db))"
proof (cases "json_Marshal_m e info")
  case (Inl err)
  then show ?thesis using P by (simp add: Create_m_def)
next
  case (Inr jv)
  obtain aexp rexp where ex: "expiries info = (aexp, rexp)" by (cases "expiries info")
  have ins: "\<And>s c k d. P (fst s) \<Longrightarrow> W c k \<Longrightarrow> P (fst (cInsertOne e c k d s))"
    by (rule cInsertOne_preserves[where P = P]) (auto intro: step)
  define s1 where "s1 = (if GetCode info \<noteq> []
        then cInsertOne e (BasicCName (tcfg ts)) (StringID (GetCode info))
               (BasicDoc_m jv (expiredAt_m (Add (GetCodeCreateAt info) (GetCodeExpiresIn info)))) (db, None)
        else (db, None))"
  have 1: "P (fst s1)" unfolding s1_def using P W(1) by (simp add: ins)
  define s2 where "s2 = cInsertOne e (BasicCName (tcfg ts)) (OID oid) (BasicDoc_m jv (expiredAt_m rexp)) s1"
  have 2: "P (fst s2)" unfolding s2_def by (rule ins[OF 1 W(2)])
  define s3 where "s3 = cInsertOne e (AccessCName (tcfg ts)) (StringID (GetAccess info)) (TokenDoc_m oid (expiredAt_m aexp)) s2"
  have 3: "P (fst s3)" unfolding s3_def by (rule ins[OF 2 W(3)])
  have 4: "P (fst (if GetRefresh info \<noteq> []
        then cInsertOne e (AccessCName (tcfg ts)) (StringID (GetRefresh info)) (TokenDoc_m oid (expiredAt_m rexp)) s3
        else s3))"
    using 3 W(4) by (simp add: ins)
  show ?thesis
    using 4 unfolding Create_m_def Inr ex sum.case prod.case Let_def s3_def s2_def s1_def .
qed

text \<open>What the database holds when \<^verbatim>\<open>Create\<close> of oauth2mongo.go returns.\<close>

lemma Create_Return:
  assumes "Create e ts info oid db = (db', Return r)"
  shows "r = None \<and> (\<exists>jv. json_Marshal e info = Inr jv \<and>
     db' (BasicCName (tcfg ts)) (Hex oid) = Some (BasicDoc jv (expiredAt (snd (expiries info)))) \<and>
     (GetCode info \<noteq> [] \<longrightarrow> db' (BasicCName (tcfg ts)) (GetCode info)
         = Some (BasicDoc jv (expiredAt (Add (GetCodeCreateAt info) (GetCodeExpiresIn info))))) \<and>
     (GetAccess info \<noteq> [] \<longrightarrow> db' (AccessCName (tcfg ts)) (GetAccess info)
         = Some (TokenDoc (Hex oid) (expiredAt (fst (expiries info))))) \<and>
     (GetRefresh info \<noteq> [] \<longrightarrow> db' (RefreshCName (tcfg ts)) (GetRefresh info)
         = Some (TokenDoc (Hex oid) (expiredAt (snd (expiries info))))))
     \<or> (\<exists>err. json_Marshal e info = Inl err \<and> r = Some err \<and> db' = db)"
  using assms
  by (auto simp: Create_def andThen_def InsertOne_eq Let_def split: sum.splits option.splits if_splits prod.splits)
lemma Create_keeps:
  "db c k = Some d \<Longrightarrow> fst (Create e ts info oid db) c k = Some d"
  by (rule Create_preserves[where P = "\<lambda>db. db c k = Some d" and W = "\<lambda>_ _. True"]) auto

lemma Create_m_keeps:
  "db c k = Some d \<Longrightarrow> fst (Create_m e ts info oid db) c k = Some d"
  by (rule Create_m_preserves[where P = "\<lambda>db. db c k = Some d" and W = "\<lambda>_ _. True"]) auto

lemma Create_no_empty_key:
  "db (BasicCName (tcfg ts)) [] = None \<Longrightarrow> Hex oid \<noteq> [] \<Longrightarrow>
   fst (Create e ts info oid db) (BasicCName (tcfg ts)) [] = None"
  by (rule Create_preserves[where P = "\<lambda>db. db (BasicCName (tcfg ts)) [] = None" and W = "\<lambda>_ k. k \<noteq> []"]) auto

lemma Create_m_no_empty_key:
  "db (BasicCName (tcfg ts)) (StringID []) = None \<Longrightarrow> BasicCName (tcfg ts) \<noteq> AccessCName (tcfg ts) \<Longrightarrow>
   fst (Create_m e ts info oid db) (BasicCName (tcfg ts)) (StringID []) = None"
  by (rule Create_m_preserves[where P = "\<lambda>db. db (BasicCName (tcfg ts)) (StringID []) = None"
        and W = "\<lambda>c k. k \<noteq> StringID [] \<or> c \<noteq> BasicCName (tcfg ts)"]) auto

lemma cInsertOne_keeps_error: "snd s \<noteq> None \<Longrightarrow> snd (cInsertOne e c k d s) \<noteq> None"
  by (auto simp: cInsertOne_eq split: option.splits)

lemma Create_m_None:
  assumes "Create_m e ts info oid db = (db', None)"
  shows "\<exists>jv. json_Marshal_m e info = Inr jv \<and>
          db' (BasicCName (tcfg ts)) (OID oid) = Some (BasicDoc_m jv (expiredAt_m (snd (expiries info))))"
  using assms
  by (auto simp: Create_m_def cInsertOne_eq Let_def split: sum.splits option.splits if_splits prod.splits)

lemma Create_Return_distinct:
  assumes "Create e ts info oid db = (db', Return None)"
    and "GetAccess info \<noteq> []" and "GetRefresh info \<noteq> []"
  shows "(AccessCName (tcfg ts), GetAccess info) \<noteq> (RefreshCName (tcfg ts), GetRefresh info) \<and>
         (AccessCName (tcfg ts), GetAccess info) \<noteq> (BasicCName (tcfg ts), Hex oid)"
  using assms
  by (auto simp: Create_def andThen_def InsertOne_eq Let_def split: sum.splits option.splits if_splits prod.splits)

text \<open>
  In oauth2mongo.go the access collection gains the access record when the access token
  is not empty and is left as it was otherwise (its name being that of no other
  collection).
\<close>

lemma Create_access_collection:
  assumes "Create e ts info oid db = (db', Return None)"
    and "AccessCName (tcfg ts) \<noteq> BasicCName (tcfg ts)"
    and "AccessCName (tcfg ts) \<noteq> RefreshCName (tcfg ts)"
  shows "db' (AccessCName (tcfg ts)) =
           (if GetAccess info \<noteq> []
            then (db (AccessCName (tcfg ts)))
                   (GetAccess info \<mapsto> TokenDoc (Hex oid) (expiredAt (fst (expiries info))))
            else db (AccessCName (tcfg ts)))"
  using assms
  by (auto simp: Create_def andThen_def InsertOne_eq Let_def split: sum.splits option.splits if_splits prod.splits)

text \<open>
  In the second file the code record carries the code's expiry in milliseconds, and so
  does the access record the expiry that \<open>expiries\<close> computes.
\<close>

lemma Create_m_None_records:
  assumes "Create_m e ts info oid db = (db', None)"
  shows "\<exists>jv. json_Marshal_m e info = Inr jv \<and>
     (GetCode info \<noteq> [] \<longrightarrow> db' (BasicCName (tcfg ts)) (StringID (GetCode info))
         = Some (BasicDoc_m jv (expiredAt_m (Add (GetCodeCreateAt info) (GetCodeExpiresIn info))))) \<and>
     db' (AccessCName (tcfg ts)) (StringID (GetAccess info))
         = Some (TokenDoc_m oid (expiredAt_m (fst (expiries info))))"
  using assms
  by (auto simp: Create_m_def cInsertOne_eq Let_def split: sum.splits option.splits if_splits prod.splits)


text \<open>
  A removal leaves the database as it is (when the backend fails) or deletes the record
  under its key in its own collection; every other record of every collection stays.
\<close>

lemma removals_frame:
  "(fst (RemoveByCode e ts key db) = db \<or>
    fst (RemoveByCode e ts key db) = db(BasicCName (tcfg ts) := (db (BasicCName (tcfg ts)))(key := None))) \<and>
   (fst (RemoveByAccess e ts key db) = db \<or>
    fst (RemoveByAccess e ts key db) = db(AccessCName (tcfg ts) := (db (AccessCName (tcfg ts)))(key := None))) \<and>
   (fst (RemoveByRefresh e ts key db) = db \<or>
    fst (RemoveByRefresh e ts key db) = db(RefreshCName (tcfg ts) := (db (RefreshCName (tcfg ts)))(key := None))) \<and>
   (fst (RemoveByCode_m em ts key dbm) = dbm \<or>
    fst (RemoveByCode_m em ts key dbm)
      = dbm(BasicCName (tcfg ts) := (dbm (BasicCName (tcfg ts)))(StringID key := None))) \<and>
   (fst (RemoveByAccess_m em ts key dbm) = dbm \<or>
    fst (RemoveByAccess_m em ts key dbm)
      = dbm(AccessCName (tcfg ts) := (dbm (AccessCName (tcfg ts)))(StringID key := None))) \<and>
   (fst (RemoveByRefresh_m em ts key dbm) = dbm \<or>
    fst (RemoveByRefresh_m em ts key dbm)
      = dbm(RefreshCName (tcfg ts) := (dbm (RefreshCName (tcfg ts)))(StringID key := None)))"
  unfolding RemoveByCode_def RemoveByAccess_def RemoveByRefresh_def DeleteByID_def
    RemoveByCode_m_def RemoveByAccess_m_def RemoveByRefresh_m_def cDeleteMany_def
  by (intro conjI Delete_cases)

section \<open>Lookups\<close>

lemma getData_missing:
  "db (BasicCName (tcfg ts)) k = None \<Longrightarrow> fault e (OpFind (BasicCName (tcfg ts)) k) = None \<Longrightarrow>
   getData e ts k db = Return (None, None)"
  by (simp add: getData_def FindByID_def Collection_FindOne_def)

lemma getBasicID_missing:
  "db c k = None \<Longrightarrow> fault e (OpFind c k) = None \<Longrightarrow> getBasicID e c k db = ([], None)"
  by (simp add: getBasicID_def FindByID_def Collection_FindOne_def)

lemma getBasicID_found:
  "db c k = Some d \<Longrightarrow> fault e (OpFind c k) = None \<Longrightarrow>
   getBasicID e c k db = (BasicID (Decode_tokenData k d), None)"
  by (simp add: getBasicID_def FindByID_def Collection_FindOne_def)

lemma getData_m_missing:
  "db (BasicCName (tcfg ts)) (StringID k) = None \<Longrightarrow>
   fault_m e (OpFind (BasicCName (tcfg ts)) (StringID k)) = None \<Longrightarrow>
   getData_m e ts k db = (None, None)"
  by (simp add: getData_m_def FindOne_Decode_def Collection_FindOne_def)

lemma getBasicID_m_missing:
  "db c (StringID k) = None \<Longrightarrow> fault_m e (OpFind c (StringID k)) = None \<Longrightarrow>
   getBasicID_m e c k db = ([], None)"
  by (simp add: getBasicID_m_def FindOne_Decode_def Collection_FindOne_def)

lemma getData_found:
  "db (BasicCName (tcfg ts)) k = Some (BasicDoc jv t) \<Longrightarrow>
   fault e (OpFind (BasicCName (tcfg ts)) k) = None \<Longrightarrow>
   getData e ts k db =
     Return (case json_Unmarshal e jv of Inl err \<Rightarrow> (None, Some err) | Inr tm \<Rightarrow> (Some tm, None))"
  by (simp add: getData_def FindByID_def Collection_FindOne_def split: sum.splits)

text \<open>
  In oauth2mongo.go, after a \<^verbatim>\<open>Create\<close> with both tokens has returned, the lookup by
  access token and the lookup by refresh token read the same basic record and give what
  \<^verbatim>\<open>json.Unmarshal\<close> makes of the payload that \<^verbatim>\<open>Create\<close> serialized.
\<close>

lemma lookups_after_Create:
  assumes c: "Create e ts info oid db = (db', Return None)"
    and a: "GetAccess info \<noteq> []" and rf: "GetRefresh info \<noteq> []"
    and nf: "\<And>c k. fault e' (OpFind c k) = None"
  shows "\<exists>jv. json_Marshal e info = Inr jv \<and>
           db' (RefreshCName (tcfg ts)) (GetRefresh info)
             = Some (TokenDoc (Hex oid) (expiredAt (snd (expiries info)))) \<and>
           GetByAccess e' ts (GetAccess info) db'
             = Return (case json_Unmarshal e' jv of Inl err \<Rightarrow> (None, Some err) | Inr tm \<Rightarrow> (Some tm, None)) \<and>
           GetByRefresh e' ts (GetRefresh info) db' = GetByAccess e' ts (GetAccess info) db'"
proof -
  from Create_Return[OF c] a rf obtain jv where
    jv: "json_Marshal e info = Inr jv"
    and b: "db' (BasicCName (tcfg ts)) (Hex oid) = Some (BasicDoc jv (expiredAt (snd (expiries info))))"
    and ac: "db' (AccessCName (tcfg ts)) (GetAccess info) = Some (TokenDoc (Hex oid) (expiredAt (fst (expiries info))))"
    and re: "db' (RefreshCName (tcfg ts)) (GetRefresh info) = Some (TokenDoc (Hex oid) (expiredAt (snd (expiries info))))"
    by (cases "json_Marshal e info") auto
  have ga: "GetByAccess e' ts (GetAccess info) db' = getData e' ts (Hex oid) db'"
    by (simp add: GetByAccess_def getBasicID_found ac nf)
  have gr: "GetByRefresh e' ts (GetRefresh info) db' = getData e' ts (Hex oid) db'"
    by (simp add: GetByRefresh_def getBasicID_found re nf)
  show ?thesis
    using jv re ga gr by (simp add: getData_found b nf)
qed

text \<open>
  In oauth2mongo.go, removing the access token after such a \<^verbatim>\<open>Create\<close> makes the lookup by
  access token find nothing and leaves the lookup by refresh token as it was.
\<close>

lemma lookups_after_RemoveByAccess:
  assumes c: "Create e ts info oid db = (db', Return None)"
    and a: "GetAccess info \<noteq> []" and rf: "GetRefresh info \<noteq> []"
    and inv: "db (BasicCName (tcfg ts)) [] = None" and oid: "Hex oid \<noteq> []"
    and nf: "\<And>c k. fault e' (OpFind c k) = None"
    and nd: "fault e' (OpDelete (AccessCName (tcfg ts)) (GetAccess info)) = None"
  shows "GetByAccess e' ts (GetAccess info) (fst (RemoveByAccess e' ts (GetAccess info) db'))
           = Return (None, None) \<and>
         GetByRefresh e' ts (GetRefresh info) (fst (RemoveByAccess e' ts (GetAccess info) db'))
           = GetByRefresh e' ts (GetRefresh info) db'"
proof -
  define db'' where "db'' = fst (RemoveByAccess e' ts (GetAccess info) db')"
  have d: "db'' = db'(AccessCName (tcfg ts) := (db' (AccessCName (tcfg ts)))(GetAccess info := None))"
    by (simp add: db''_def RemoveByAccess_def DeleteByID_def Collection_Delete_def nd)
  from Create_Return[OF c] a rf obtain jv where
    b: "db' (BasicCName (tcfg ts)) (Hex oid) = Some (BasicDoc jv (expiredAt (snd (expiries info))))"
    and re: "db' (RefreshCName (tcfg ts)) (GetRefresh info) = Some (TokenDoc (Hex oid) (expiredAt (snd (expiries info))))"
    by (cases "json_Marshal e info") auto
  from Create_Return_distinct[OF c a rf]
  have ne: "(AccessCName (tcfg ts), GetAccess info) \<noteq> (RefreshCName (tcfg ts), GetRefresh info)"
           "(AccessCName (tcfg ts), GetAccess info) \<noteq> (BasicCName (tcfg ts), Hex oid)"
    by auto
  have inv': "db' (BasicCName (tcfg ts)) [] = None"
    using Create_no_empty_key[where db = db and ts = ts and oid = oid and e = e and info = info] inv oid c by simp
  have b'': "db'' (BasicCName (tcfg ts)) (Hex oid) = db' (BasicCName (tcfg ts)) (Hex oid)"
    using ne(2) by (auto simp: d)
  have re'': "db'' (RefreshCName (tcfg ts)) (GetRefresh info) = db' (RefreshCName (tcfg ts)) (GetRefresh info)"
    using ne(1) by (auto simp: d)
  have ac'': "db'' (AccessCName (tcfg ts)) (GetAccess info) = None" by (simp add: d)
  have e'': "db'' (BasicCName (tcfg ts)) [] = None" using inv' by (auto simp: d)
  have 1: "GetByAccess e' ts (GetAccess info) db'' = Return (None, None)"
    by (simp add: GetByAccess_def getBasicID_missing getData_missing ac'' e'' nf)
  have 2: "GetByRefresh e' ts (GetRefresh info) db'' = getData e' ts (Hex oid) db''"
    using re re'' by (simp add: GetByRefresh_def getBasicID_found nf)
  have 3: "GetByRefresh e' ts (GetRefresh info) db' = getData e' ts (Hex oid) db'"
    by (simp add: GetByRefresh_def getBasicID_found re nf)
  have 4: "getData e' ts (Hex oid) db'' = getData e' ts (Hex oid) db'"
    using b b'' by (simp add: getData_found nf)
  show ?thesis using 1 2 3 4 by (simp add: db''_def)
qed

section \<open>No basic record is keyed by the empty string\<close>

lemma reachable_no_empty_key:
  "reachable ts db \<Longrightarrow> db (BasicCName (tcfg ts)) [] = None"
proof (induction rule: reachable.induct)
  case init
  show ?case by (simp add: empty_db_def)
next
  case (create db oid e info db' r)
  from create.hyps(2) have "Hex oid \<noteq> []" by auto
  with create.IH have "fst (Create e ts info oid db) (BasicCName (tcfg ts)) [] = None"
    by (rule Create_no_empty_key)
  with create.hyps(3) show ?case by simp
next
  case (remove_code db e k db' r')
  with Delete_entry[of "fault e" "BasicCName (tcfg ts)" k db "BasicCName (tcfg ts)" "[]"]
  show ?case by (auto simp: RemoveByCode_def DeleteByID_def)
next
  case (remove_access db e k db' r')
  with Delete_entry[of "fault e" "AccessCName (tcfg ts)" k db "BasicCName (tcfg ts)" "[]"]
  show ?case by (auto simp: RemoveByAccess_def DeleteByID_def)
next
  case (remove_refresh db e k db' r')
  with Delete_entry[of "fault e" "RefreshCName (tcfg ts)" k db "BasicCName (tcfg ts)" "[]"]
  show ?case by (auto simp: RemoveByRefresh_def DeleteByID_def)
next
  case (expire db c k)
  then show ?case by auto
qed

lemma reachable_m_no_empty_key:
  "reachable_m ts db \<Longrightarrow> BasicCName (tcfg ts) \<noteq> AccessCName (tcfg ts) \<Longrightarrow>
   db (BasicCName (tcfg ts)) (StringID []) = None"
proof (induction rule: reachable_m.induct)
  case init_m
  show ?case by (simp add: empty_db_def)
next
  case (create_m db e info oid db' r)
  then have "fst (Create_m e ts info oid db) (BasicCName (tcfg ts)) (StringID []) = None"
    by (intro Create_m_no_empty_key) auto
  with create_m.hyps(2) show ?case by simp
next
  case (remove_code_m db e k db' r)
  with Delete_entry[of "fault_m e" "BasicCName (tcfg ts)" "StringID k" db "BasicCName (tcfg ts)" "StringID []"]
  show ?case by (auto simp: RemoveByCode_m_def cDeleteMany_def)
next
  case (remove_access_m db e k db' r)
  with Delete_entry[of "fault_m e" "AccessCName (tcfg ts)" "StringID k" db "BasicCName (tcfg ts)" "StringID []"]
  show ?case by (auto simp: RemoveByAccess_m_def cDeleteMany_def)
next
  case (remove_refresh_m db e k db' r)
  with Delete_entry[of "fault_m e" "RefreshCName (tcfg ts)" "StringID k" db "BasicCName (tcfg ts)" "StringID []"]
  show ?case by (auto simp: RemoveByRefresh_m_def cDeleteMany_def)
next
  case (expire_m db c km)
  then show ?case by auto
qed

text \<open>
  In oauth2mongo.go, in every state a store can reach and when the backend answers the
  lookups, a lookup by a code, an access token or a refresh token under which nothing
  is stored returns no token information and no error; so does a lookup whose
  reference record is there while the basic record it names is not.
\<close>

lemma missing_key_gives_nil_nil:
  "reachable ts db \<and> (\<forall>c k. fault e (OpFind c k) = None) \<longrightarrow>
      (db (BasicCName (tcfg ts)) code = None \<longrightarrow> GetByCode e ts code db = Return (None, None)) \<and>
      (db (AccessCName (tcfg ts)) access = None \<longrightarrow> GetByAccess e ts access db = Return (None, None)) \<and>
      (db (RefreshCName (tcfg ts)) refresh = None \<longrightarrow> GetByRefresh e ts refresh db = Return (None, None)) \<and>
      (\<forall>d. db (AccessCName (tcfg ts)) access = Some d \<and>
            db (BasicCName (tcfg ts)) (BasicID (Decode_tokenData access d)) = None \<longrightarrow>
            GetByAccess e ts access db = Return (None, None)) \<and>
      (\<forall>d. db (RefreshCName (tcfg ts)) refresh = Some d \<and>
            db (BasicCName (tcfg ts)) (BasicID (Decode_tokenData refresh d)) = None \<longrightarrow>
            GetByRefresh e ts refresh db = Return (None, None))"
proof (intro conjI impI allI)
  assume "reachable ts db \<and> (\<forall>c k. fault e (OpFind c k) = None)"
  then have inv: "db (BasicCName (tcfg ts)) [] = None" and nf: "\<And>c k. fault e (OpFind c k) = None"
    by (auto dest: reachable_no_empty_key)
  { assume "db (BasicCName (tcfg ts)) code = None"
    then show "GetByCode e ts code db = Return (None, None)"
      by (simp add: GetByCode_def getData_missing nf) }
  { assume "db (AccessCName (tcfg ts)) access = None"
    then show "GetByAccess e ts access db = Return (None, None)"
      by (simp add: GetByAccess_def getBasicID_missing getData_missing nf inv) }
  { assume "db (RefreshCName (tcfg ts)) refresh = None"
    then show "GetByRefresh e ts refresh db = Return (None, None)"
      by (simp add: GetByRefresh_def getBasicID_missing getData_missing nf inv) }
  { fix d
    assume "db (AccessCName (tcfg ts)) access = Some d \<and>
            db (BasicCName (tcfg ts)) (BasicID (Decode_tokenData access d)) = None"
    then show "GetByAccess e ts access db = Return (None, None)"
      by (simp add: GetByAccess_def getBasicID_found getData_missing nf) }
  { fix d
    assume "db (RefreshCName (tcfg ts)) refresh = Some d \<and>
            db (BasicCName (tcfg ts)) (BasicID (Decode_tokenData refresh d)) = None"
    then show "GetByRefresh e ts refresh db = Return (None, None)"
      by (simp add: GetByRefresh_def getBasicID_found getData_missing nf) }
qed

text \<open>
  In the second file a lookup by a key under which nothing is stored returns no token
  information and no error, whatever the driver's decoding, where the basic and the
  access collection are two collections.
\<close>

lemma missing_key_gives_nil_nil_m:
  "reachable_m ts dbm \<and> BasicCName (tcfg ts) \<noteq> AccessCName (tcfg ts) \<and>
   (\<forall>c k. fault_m em (OpFind c k) = None) \<longrightarrow>
      (dbm (BasicCName (tcfg ts)) (StringID code) = None \<longrightarrow> GetByCode_m em ts code dbm = (None, None)) \<and>
      (dbm (AccessCName (tcfg ts)) (StringID access) = None \<longrightarrow>
         GetByAccess_m em ts access dbm = (None, None)) \<and>
      (dbm (RefreshCName (tcfg ts)) (StringID refresh) = None \<longrightarrow>
         GetByRefresh_m em ts refresh dbm = (None, None))"
proof (intro conjI impI)
  assume "reachable_m ts dbm \<and> BasicCName (tcfg ts) \<noteq> AccessCName (tcfg ts) \<and>
          (\<forall>c k. fault_m em (OpFind c k) = None)"
  then have inv: "dbm (BasicCName (tcfg ts)) (StringID []) = None"
    and nf: "\<And>c k. fault_m em (OpFind c k) = None"
    by (auto dest: reachable_m_no_empty_key)
  { assume "dbm (BasicCName (tcfg ts)) (StringID code) = None"
    then show "GetByCode_m em ts code dbm = (None, None)"
      by (simp add: GetByCode_m_def getData_m_missing nf) }
  { assume "dbm (AccessCName (tcfg ts)) (StringID access) = None"
    then show "GetByAccess_m em ts access dbm = (None, None)"
      by (simp add: GetByAccess_m_def getBasicID_m_missing getData_m_missing nf inv) }
  { assume "dbm (RefreshCName (tcfg ts)) (StringID refresh) = None"
    then show "GetByRefresh_m em ts refresh dbm = (None, None)"
      by (simp add: GetByRefresh_m_def getBasicID_m_missing getData_m_missing nf inv) }
qed




section \<open>The claims\<close>

text \<open>The scenario of the specification, evaluated for both files.\<close>

lemma Create_scenario:
  "Create env0 ts0 info_1h_24h oid0 empty_db =
     (empty_db
        (''oauth2_basic'' := [''c1'' \<mapsto> BasicDoc ''c1|a1|r1'' (expiredAt (now0 + 10 * Minute)),
                              Hex oid0 \<mapsto> BasicDoc ''c1|a1|r1'' (expiredAt (now0 + 24 * Hour))],
         ''oauth2_access'' := [''a1'' \<mapsto> TokenDoc (Hex oid0) (expiredAt (now0 + Hour))],
         ''oauth2_refresh'' := [''r1'' \<mapsto> TokenDoc (Hex oid0) (expiredAt (now0 + 24 * Hour))]),
      Return None)"
  by (simp add: create_defs ts0_def NewDefaultTokenConfig_def env0_def marshal0_def empty_db_def oid0_def now0_def Hour_def Minute_def info_1h_24h_def)

lemma Create_m_scenario:
  "Create_m env0_m ts0 info_1h_24h oid0 empty_db =
     (empty_db
        (''oauth2_basic'' := [StringID ''c1'' \<mapsto> BasicDoc_m ''c1|a1|r1'' (expiredAt_m (now0 + 10 * Minute)),
                              OID oid0 \<mapsto> BasicDoc_m ''c1|a1|r1'' (expiredAt_m (now0 + 24 * Hour))],
         ''oauth2_access'' := [StringID ''a1'' \<mapsto> TokenDoc_m oid0 (expiredAt_m (now0 + Hour)),
                               StringID ''r1'' \<mapsto> TokenDoc_m oid0 (expiredAt_m (now0 + 24 * Hour))]),
      None)"
  by (simp add: create_m_defs ts0_def NewDefaultTokenConfig_def env0_m_def marshal0_def empty_db_def oid0_def now0_def Hour_def Minute_def info_1h_24h_def)

lemma cfg0:
  "BasicCName (tcfg ts0) = ''oauth2_basic''" "AccessCName (tcfg ts0) = ''oauth2_access''"
  "RefreshCName (tcfg ts0) = ''oauth2_refresh''"
  by (simp_all add: ts0_def NewDefaultTokenConfig_def)

lemma Create_2h_1h:
  "Create env0 ts0 info_2h_1h oid0 empty_db =
     (empty_db
        (''oauth2_basic'' := [Hex oid0 \<mapsto> BasicDoc ''|a1|r1'' (expiredAt (now0 + Hour))],
         ''oauth2_access'' := [''a1'' \<mapsto> TokenDoc (Hex oid0) (expiredAt (now0 + 2 * Hour))],
         ''oauth2_refresh'' := [''r1'' \<mapsto> TokenDoc (Hex oid0) (expiredAt (now0 + Hour))]),
      Return None)"
  by (simp add: create_defs ts0_def NewDefaultTokenConfig_def env0_def marshal0_def empty_db_def oid0_def now0_def Hour_def Minute_def info_2h_1h_def)

lemma Create_m_2h_1h:
  "Create_m env0_m ts0 info_2h_1h oid0 empty_db =
     (empty_db
        (''oauth2_basic'' := [OID oid0 \<mapsto> BasicDoc_m ''|a1|r1'' (expiredAt_m (now0 + Hour))],
         ''oauth2_access'' := [StringID ''a1'' \<mapsto> TokenDoc_m oid0 (expiredAt_m (now0 + 2 * Hour)),
                               StringID ''r1'' \<mapsto> TokenDoc_m oid0 (expiredAt_m (now0 + Hour))]),
      None)"
  by (simp add: create_m_defs ts0_def NewDefaultTokenConfig_def env0_m_def marshal0_def empty_db_def oid0_def now0_def Hour_def Minute_def info_2h_1h_def)

lemma Create_code:
  "Create env0 ts0 info_code oid0 empty_db =
     (empty_db
        (''oauth2_basic'' := [''c1'' \<mapsto> BasicDoc ''c1||'' (expiredAt (now0 + 10 * Minute)),
                              Hex oid0 \<mapsto> BasicDoc ''c1||'' (expiredAt 0)]),
      Return None)"
  "Create env0 ts0 info_code oid1 empty_db =
     (empty_db
        (''oauth2_basic'' := [''c1'' \<mapsto> BasicDoc ''c1||'' (expiredAt (now0 + 10 * Minute)),
                              Hex oid1 \<mapsto> BasicDoc ''c1||'' (expiredAt 0)]),
      Return None)"
  by (simp_all add: create_defs ts0_def NewDefaultTokenConfig_def env0_def marshal0_def empty_db_def oid0_def now0_def Hour_def Minute_def oid1_def info_code_def)

lemma Create_m_code:
  "Create_m env0_m ts0 info_code oid empty_db =
     (empty_db
        (''oauth2_basic'' := [StringID ''c1'' \<mapsto> BasicDoc_m ''c1||'' (expiredAt_m (now0 + 10 * Minute)),
                              OID oid \<mapsto> BasicDoc_m ''c1||'' (expiredAt_m 0)],
         ''oauth2_access'' := [StringID [] \<mapsto> TokenDoc_m oid (expiredAt_m 0)]),
      None)"
  by (simp add: create_m_defs ts0_def NewDefaultTokenConfig_def env0_m_def marshal0_def empty_db_def oid0_def now0_def Hour_def Minute_def info_code_def)

lemma scenario_expiries:
  "expiredAt_m (now0 + 10 * Minute) = 1540901400000"
  "expiredAt_m (now0 + Hour) = 1540904400000"
  "expiredAt_m (now0 + 2 * Hour) = 1540908000000"
  "expiredAt_m (now0 + 24 * Hour) = 1540987200000"
  "expiredAt (now0 + 10 * Minute) = 1540901400000"
  "expiredAt (now0 + Hour) = 1540904400000"
  "expiredAt (now0 + 2 * Hour) = 1540908000000"
  "expiredAt (now0 + 24 * Hour) = 1540987200000"
  by (simp_all add: expiredAt_def expiredAt_m_def time_Unix_def UnixNano_def int64_def int64_quo_def
        Millisecond_def now0_def Hour_def Minute_def)

subsection \<open>C1\<close>

text \<open>
  C1 says that with both tokens present the access record expires at the smaller of
  access-creation + access-ttl and refresh-creation + refresh-ttl. Both files compare
  \<^verbatim>\<open>aexp.Second()\<close> with \<^verbatim>\<open>rexp.Second()\<close>, the seconds within the minute, and not the
  two instants. With an access token for two hours and a refresh token for one hour,
  both created now, the two values are equal, nothing is clamped, and the access record
  carries the expiry of two hours in both files although the refresh token expires an
  hour earlier. With 90 and 120 seconds the comparison is 30 > 0 and the access expiry
  becomes the later instant. oauth2mongo.go moreover stores the number of milliseconds
  as a number of nanoseconds (see C7).
\<close>

theorem C1_access_expiry_is_not_the_smaller:
  "fst (Create env0 ts0 info_2h_1h oid0 empty_db) (AccessCName (tcfg ts0)) ''a1''
     = Some (TokenDoc (Hex oid0) (expiredAt (now0 + 2 * Hour))) \<and>
   fst (Create_m env0_m ts0 info_2h_1h oid0 empty_db) (AccessCName (tcfg ts0)) (StringID ''a1'')
     = Some (TokenDoc_m oid0 (expiredAt_m (now0 + 2 * Hour))) \<and>
   min (Add (GetAccessCreateAt info_2h_1h) (GetAccessExpiresIn info_2h_1h))
       (Add (GetRefreshCreateAt info_2h_1h) (GetRefreshExpiresIn info_2h_1h)) = now0 + Hour \<and>
   expiredAt_m (now0 + 2 * Hour) = 1540908000000 \<and>
   expiredAt_m (now0 + Hour) = 1540904400000 \<and>
   expiredAt (now0 + 2 * Hour) = 1540908000000 \<and>
   now0 + Hour = 1540904400000000000 \<and>
   expiries info_90s_120s = (now0 + 120 * 1000000000, now0 + 120 * 1000000000)"
  unfolding Create_2h_1h Create_m_2h_1h cfg0 scenario_expiries
  by (simp add: expiries_def Add_def Second_def Let_def info_2h_1h_def info_90s_120s_def empty_db_def
        now0_def Hour_def)

subsection \<open>C2\<close>

lemma Create_m_access_30m:
  "Create_m env0_m ts0 info_access_30m oid0 empty_db =
     (empty_db
        (''oauth2_basic'' := [OID oid0 \<mapsto> BasicDoc_m ''|a1|'' (expiredAt_m (now0 + 30 * Minute))],
         ''oauth2_access'' := [StringID ''a1'' \<mapsto> TokenDoc_m oid0 (expiredAt_m (now0 + 30 * Minute))]),
      None)"
  by (simp add: create_m_defs ts0_def NewDefaultTokenConfig_def env0_m_def marshal0_def empty_db_def
        oid0_def now0_def Hour_def Minute_def info_access_30m_def)




subsection \<open>C3\<close>

text \<open>
  C3 says that \<^verbatim>\<open>Create\<close> writes the refresh record into the refresh collection, so
  that the lookup by refresh token resolves. The \<^verbatim>\<open>Create\<close> of the second file
  (lines 218-233) writes it into the access collection: after the scenario of the
  specification the refresh collection holds nothing under r1, the access collection
  holds the record, and \<^verbatim>\<open>GetByRefresh\<close> finds nothing, whatever the driver's decoding.
  oauth2mongo.go writes it into the refresh collection (\<open>lookups_after_Create\<close>).
\<close>

theorem C3_refresh_record_in_access_collection:
  "snd (Create_m env0_m ts0 info_1h_24h oid0 empty_db) = None \<and>
   fst (Create_m env0_m ts0 info_1h_24h oid0 empty_db) (RefreshCName (tcfg ts0)) (StringID ''r1'') = None \<and>
   fst (Create_m env0_m ts0 info_1h_24h oid0 empty_db) (AccessCName (tcfg ts0)) (StringID ''r1'')
     = Some (TokenDoc_m oid0 (expiredAt_m (now0 + 24 * Hour))) \<and>
   GetByRefresh_m (env0_m\<lparr>Decode_Data_m := dd, Decode_BasicID_m := di\<rparr>) ts0 ''r1''
     (fst (Create_m env0_m ts0 info_1h_24h oid0 empty_db)) = (None, None)"
  unfolding Create_m_scenario cfg0
  by (simp add: GetByRefresh_m_def getBasicID_m_def getData_m_def FindOne_Decode_def
        Collection_FindOne_def env0_m_def empty_db_def cfg0)

subsection \<open>C4\<close>

text \<open>
  C4 says that a lookup returns no token information and no error at every stage at
  which it finds nothing: when the reference record is missing, and when the reference
  record is there while the basic record is not. oauth2mongo.go does so
  (\<open>missing_key_gives_nil_nil\<close>), and the second file does so for a key under which
  nothing is stored (\<open>missing_key_gives_nil_nil_m\<close>). But the second file writes
  \<^verbatim>\<open>BasicID\<close> as an ObjectID (line 207) and reads it into a string (line 359), which the
  driver refuses: once \<^verbatim>\<open>Create\<close> has stored the access token a1, \<^verbatim>\<open>GetByAccess\<close> of a1
  returns the decoding error, also after the basic record has expired.
\<close>

theorem C4_stored_reference_gives_decoding_error:
  "fst (Create_m env0_m ts0 info_1h_24h oid0 empty_db) (AccessCName (tcfg ts0)) (StringID ''a1'')
     = Some (TokenDoc_m oid0 (expiredAt_m (now0 + Hour))) \<and>
   GetByAccess_m env0_m ts0 ''a1'' (fst (Create_m env0_m ts0 info_1h_24h oid0 empty_db))
     = (None, Some ErrDecode) \<and>
   ((fst (Create_m env0_m ts0 info_1h_24h oid0 empty_db))
      (BasicCName (tcfg ts0) :=
         (fst (Create_m env0_m ts0 info_1h_24h oid0 empty_db) (BasicCName (tcfg ts0)))
           (OID oid0 := None))) (BasicCName (tcfg ts0)) (OID oid0) = None \<and>
   GetByAccess_m env0_m ts0 ''a1''
     ((fst (Create_m env0_m ts0 info_1h_24h oid0 empty_db))
        (BasicCName (tcfg ts0) :=
           (fst (Create_m env0_m ts0 info_1h_24h oid0 empty_db) (BasicCName (tcfg ts0)))
             (OID oid0 := None)))
     = (None, Some ErrDecode) \<and>
   GetByAccess_m env0_m ts0 ''zz'' (fst (Create_m env0_m ts0 info_1h_24h oid0 empty_db))
     = (None, None)"
  unfolding Create_m_scenario cfg0
  by (simp add: GetByAccess_m_def getBasicID_m_def getData_m_def FindOne_Decode_def
        Collection_FindOne_def env0_m_def empty_db_def cfg0)

subsection \<open>C5\<close>

text \<open>
  C5 says that a backend error inside a store operation is returned to the caller, and
  none is logged, swallowed or ends the process. In oauth2mongo.go \<^verbatim>\<open>InsertOne\<close> and
  \<^verbatim>\<open>getData\<close> pass the error to \<^verbatim>\<open>log.Fatal\<close>: a second \<^verbatim>\<open>Create\<close> with a code that is
  stored ends the process on the duplicate key, and so do a \<^verbatim>\<open>Create\<close> and a lookup
  by code against a backend that fails.
\<close>

theorem C5_backend_error_ends_the_process:
  "Create env0 ts0 info_code oid0 (fst (Create env0 ts0 info_code oid1 empty_db))
     = (fst (Create env0 ts0 info_code oid1 empty_db), Exit ErrDuplicateKey) \<and>
   Create env_down ts0 info_code oid0 empty_db = (empty_db, Exit (ErrBackend 7)) \<and>
   getData env_down ts0 ''c1'' empty_db = Exit (ErrBackend 7) \<and>
   GetByCode env_down ts0 ''c1'' empty_db = Exit (ErrBackend 7)"
  unfolding Create_code
  by (simp add: create_defs GetByCode_def getData_def FindByID_def Collection_FindOne_def env_down_def
        ts0_def NewDefaultTokenConfig_def env0_def marshal0_def empty_db_def oid0_def now0_def Hour_def Minute_def oid1_def info_code_def)

subsection \<open>C6\<close>

text \<open>
  C6 says that \<^verbatim>\<open>Create\<close> writes an access record exactly when the access token is not
  empty. The \<^verbatim>\<open>Create\<close> of the second file (lines 203-216) writes it without a test: for
  an authorization code alone it stores an access record under the empty string.
  oauth2mongo.go tests the token (line 178) and writes nothing into the access
  collection for the same input.
\<close>

theorem C6_access_record_without_access_token:
  "GetAccess info_code = [] \<and>
   snd (Create_m env0_m ts0 info_code oid0 empty_db) = None \<and>
   fst (Create_m env0_m ts0 info_code oid0 empty_db) (AccessCName (tcfg ts0)) (StringID [])
     = Some (TokenDoc_m oid0 (expiredAt_m 0)) \<and>
   snd (Create env0 ts0 info_code oid0 empty_db) = Return None \<and>
   fst (Create env0 ts0 info_code oid0 empty_db) (AccessCName (tcfg ts0)) = (\<lambda>k. None)"
  unfolding Create_code Create_m_code cfg0
  by (auto simp add: info_code_def empty_db_def)

subsection \<open>C7\<close>

text \<open>
  C7 says that the code record's expiration is code-creation + code-ttl. oauth2mongo.go
  hands \<^verbatim>\<open>time.Unix\<close> the expiry in milliseconds as its nanoseconds argument: for a code
  created now and valid for ten minutes the record's \<^verbatim>\<open>ExpiredAt\<close> is the instant
  1540901400000 ns after the epoch (about 25 minutes into 1970), not the instant
  1540901400 s after it. The second file writes the same number as a DateTime in
  milliseconds, which is the expiry.
\<close>

theorem C7_code_record_expiry_in_wrong_unit:
  "fst (Create env0 ts0 info_code oid0 empty_db) (BasicCName (tcfg ts0)) ''c1''
     = Some (BasicDoc ''c1||'' 1540901400000) \<and>
   Add (GetCodeCreateAt info_code) (GetCodeExpiresIn info_code) = 1540901400000000000 \<and>
   time_Unix 1540901400 0 = 1540901400000000000 \<and>
   time_Unix 0 1540901400000 = 1540901400000 \<and>
   fst (Create_m env0_m ts0 info_code oid0 empty_db) (BasicCName (tcfg ts0)) (StringID ''c1'')
     = Some (BasicDoc_m ''c1||'' 1540901400000)"
  unfolding Create_code Create_m_code cfg0 scenario_expiries
  by (simp add: Add_def time_Unix_def info_code_def empty_db_def oid0_def now0_def Minute_def)

subsection \<open>C8\<close>

text \<open>
  C8. When \<^verbatim>\<open>json.Marshal\<close> fails on the token information, \<^verbatim>\<open>Create\<close> returns that
  error and the database is what it was: no collection has been written. This holds
  for the \<^verbatim>\<open>Create\<close> of both files.
\<close>

theorem C8_marshal_failure_writes_nothing:
  "(json_Marshal e info = Inl err \<longrightarrow> Create e ts info oid db = (db, Return (Some err))) \<and>
   (json_Marshal_m em info = Inl err \<longrightarrow> Create_m em ts info oid dbm = (dbm, Some err))"
  by (simp add: Create_def Create_m_def)

theorem C8_marshal_failure_writes_nothing_witness:
  "Create env_nomarshal ts0 info_1h_24h oid0 (fst (Create env0 ts0 info_code oid1 empty_db))
     = (fst (Create env0 ts0 info_code oid1 empty_db), Return (Some (ErrJSON 1))) \<and>
   Create_m env_nomarshal_m ts0 info_1h_24h oid0 (fst (Create_m env0_m ts0 info_code oid1 empty_db))
     = (fst (Create_m env0_m ts0 info_code oid1 empty_db), Some (ErrJSON 1))"
  using C8_marshal_failure_writes_nothing
          [where e = env_nomarshal and info = info_1h_24h and err = "ErrJSON 1" and ts = ts0
             and oid = oid0 and db = "fst (Create env0 ts0 info_code oid1 empty_db)"
             and em = env_nomarshal_m
             and dbm = "fst (Create_m env0_m ts0 info_code oid1 empty_db)"]
  by (simp add: env_nomarshal_def env_nomarshal_m_def)


subsection \<open>C9\<close>

text \<open>
  C9 says that a removal deletes the one record under its key in its own collection and
  leaves the rest (the removals of both files do so: \<open>removals_frame\<close>), and that
  after a \<^verbatim>\<open>Create\<close> with both tokens and the removal of the
  access token the lookup by refresh token still succeeds. In the second file it finds
  nothing, before the removal and after it: the refresh record is in the access
  collection (see C3). In oauth2mongo.go it succeeds (\<open>lookups_after_RemoveByAccess\<close>).
\<close>

theorem C9_refresh_lookup_after_access_removal:
  "snd (Create_m env0_m ts0 info_1h_24h oid0 empty_db) = None \<and>
   RemoveByAccess_m env0_m ts0 ''a1'' (fst (Create_m env0_m ts0 info_1h_24h oid0 empty_db))
     = ((fst (Create_m env0_m ts0 info_1h_24h oid0 empty_db))
          (AccessCName (tcfg ts0) :=
             (fst (Create_m env0_m ts0 info_1h_24h oid0 empty_db) (AccessCName (tcfg ts0)))
               (StringID ''a1'' := None)), None) \<and>
   GetByAccess_m (env0_m\<lparr>Decode_Data_m := dd, Decode_BasicID_m := di\<rparr>) ts0 ''a1''
     (fst (RemoveByAccess_m env0_m ts0 ''a1'' (fst (Create_m env0_m ts0 info_1h_24h oid0 empty_db))))
     = (None, None) \<and>
   GetByRefresh_m (env0_m\<lparr>Decode_Data_m := dd, Decode_BasicID_m := di\<rparr>) ts0 ''r1''
     (fst (RemoveByAccess_m env0_m ts0 ''a1'' (fst (Create_m env0_m ts0 info_1h_24h oid0 empty_db))))
     = (None, None)"
  unfolding Create_m_scenario cfg0
  by (simp add: RemoveByAccess_m_def cDeleteMany_def Collection_Delete_def GetByAccess_m_def
        GetByRefresh_m_def getBasicID_m_def getData_m_def FindOne_Decode_def Collection_FindOne_def
        env0_m_def empty_db_def cfg0)

subsection \<open>C10\<close>

text \<open>
  C10. No operation changes a record that is stored: \<^verbatim>\<open>Create\<close> leaves every stored
  record as it is, an insert under a key that is present fails and leaves the database
  as it is, and a removal leaves the database as it is or deletes the record under its
  key in its collection. The lookups do not write. This holds for both files.
\<close>

theorem C10_existing_records_are_never_modified:
  "(db c k = Some d \<longrightarrow>
      fst (Create e ts info oid db) c k = Some d \<and>
      (\<exists>x. InsertOne e c k d' db = (db, Exit x)) \<and>
      (fst (RemoveByCode e ts key db) = db \<or>
       fst (RemoveByCode e ts key db) = db(BasicCName (tcfg ts) := (db (BasicCName (tcfg ts)))(key := None))) \<and>
      (fst (RemoveByAccess e ts key db) = db \<or>
       fst (RemoveByAccess e ts key db) = db(AccessCName (tcfg ts) := (db (AccessCName (tcfg ts)))(key := None))) \<and>
      (fst (RemoveByRefresh e ts key db) = db \<or>
       fst (RemoveByRefresh e ts key db) = db(RefreshCName (tcfg ts) := (db (RefreshCName (tcfg ts)))(key := None)))) \<and>
   (dbm c km = Some dm \<longrightarrow>
      fst (Create_m em ts info oid dbm) c km = Some dm \<and>
      (\<exists>x. cInsertOne em c km dm' (dbm, err) = (dbm, Some x)) \<and>
      (fst (RemoveByCode_m em ts key dbm) = dbm \<or>
       fst (RemoveByCode_m em ts key dbm)
         = dbm(BasicCName (tcfg ts) := (dbm (BasicCName (tcfg ts)))(StringID key := None))) \<and>
      (fst (RemoveByAccess_m em ts key dbm) = dbm \<or>
       fst (RemoveByAccess_m em ts key dbm)
         = dbm(AccessCName (tcfg ts) := (dbm (AccessCName (tcfg ts)))(StringID key := None))) \<and>
      (fst (RemoveByRefresh_m em ts key dbm) = dbm \<or>
       fst (RemoveByRefresh_m em ts key dbm)
         = dbm(RefreshCName (tcfg ts) := (dbm (RefreshCName (tcfg ts)))(StringID key := None))))"
proof (intro conjI impI)
  assume h: "db c k = Some d"
  show "fst (Create e ts info oid db) c k = Some d" using h by (rule Create_keeps)
  show "\<exists>x. InsertOne e c k d' db = (db, Exit x)"
    using h by (simp add: InsertOne_eq split: option.splits)
  show "fst (RemoveByCode e ts key db) = db \<or>
       fst (RemoveByCode e ts key db) = db(BasicCName (tcfg ts) := (db (BasicCName (tcfg ts)))(key := None))"
    unfolding RemoveByCode_def DeleteByID_def by (rule Delete_cases)
  show "fst (RemoveByAccess e ts key db) = db \<or>
       fst (RemoveByAccess e ts key db) = db(AccessCName (tcfg ts) := (db (AccessCName (tcfg ts)))(key := None))"
    unfolding RemoveByAccess_def DeleteByID_def by (rule Delete_cases)
  show "fst (RemoveByRefresh e ts key db) = db \<or>
       fst (RemoveByRefresh e ts key db) = db(RefreshCName (tcfg ts) := (db (RefreshCName (tcfg ts)))(key := None))"
    unfolding RemoveByRefresh_def DeleteByID_def by (rule Delete_cases)
next
  assume h: "dbm c km = Some dm"
  show "fst (Create_m em ts info oid dbm) c km = Some dm" using h by (rule Create_m_keeps)
  show "\<exists>x. cInsertOne em c km dm' (dbm, err) = (dbm, Some x)"
    using h by (simp add: cInsertOne_eq split: option.splits)
  show "fst (RemoveByCode_m em ts key dbm) = dbm \<or>
       fst (RemoveByCode_m em ts key dbm)
         = dbm(BasicCName (tcfg ts) := (dbm (BasicCName (tcfg ts)))(StringID key := None))"
    unfolding RemoveByCode_m_def cDeleteMany_def by (rule Delete_cases)
  show "fst (RemoveByAccess_m em ts key dbm) = dbm \<or>
       fst (RemoveByAccess_m em ts key dbm)
         = dbm(AccessCName (tcfg ts) := (dbm (AccessCName (tcfg ts)))(StringID key := None))"
    unfolding RemoveByAccess_m_def cDeleteMany_def by (rule Delete_cases)
  show "fst (RemoveByRefresh_m em ts key dbm) = dbm \<or>
       fst (RemoveByRefresh_m em ts key dbm)
         = dbm(RefreshCName (tcfg ts) := (dbm (RefreshCName (tcfg ts)))(StringID key := None))"
    unfolding RemoveByRefresh_m_def cDeleteMany_def by (rule Delete_cases)
qed


theorem C10_existing_records_are_never_modified_witness:
  "fst (Create env0 ts0 info_code oid1 (fst (Create env0 ts0 info_1h_24h oid0 empty_db)))
     ''oauth2_basic'' ''c1'' = Some (BasicDoc ''c1|a1|r1'' (expiredAt (now0 + 10 * Minute))) \<and>
   fst (Create_m env0_m ts0 info_code oid1 (fst (Create_m env0_m ts0 info_1h_24h oid0 empty_db)))
     ''oauth2_basic'' (StringID ''c1'') = Some (BasicDoc_m ''c1|a1|r1'' (expiredAt_m (now0 + 10 * Minute)))"
proof -
  have a: "fst (Create env0 ts0 info_1h_24h oid0 empty_db) ''oauth2_basic'' ''c1''
             = Some (BasicDoc ''c1|a1|r1'' (expiredAt (now0 + 10 * Minute)))"
    unfolding Create_scenario by (simp add: oid0_def)
  have b: "fst (Create_m env0_m ts0 info_1h_24h oid0 empty_db) ''oauth2_basic'' (StringID ''c1'')
             = Some (BasicDoc_m ''c1|a1|r1'' (expiredAt_m (now0 + 10 * Minute)))"
    unfolding Create_m_scenario by simp
  show ?thesis
    using C10_existing_records_are_never_modified
            [where db = "fst (Create env0 ts0 info_1h_24h oid0 empty_db)" and c = "''oauth2_basic''"
               and k = "''c1''" and d = "BasicDoc ''c1|a1|r1'' (expiredAt (now0 + 10 * Minute))"
               and e = env0 and ts = ts0 and info = info_code and oid = oid1
               and dbm = "fst (Create_m env0_m ts0 info_1h_24h oid0 empty_db)"
               and km = "StringID ''c1''"
               and dm = "BasicDoc_m ''c1|a1|r1'' (expiredAt_m (now0 + 10 * Minute))"
               and em = env0_m]
          a b
    by simp
qed

end
